theory Spec2Isabelle
  imports Main
begin

section \<open>JavaScript values, template literals and JSX trees\<close>

text \<open>
  The components of the sidebar tutorial (\<^verbatim>\<open>NavItem.js\<close>, \<^verbatim>\<open>NavHeader.js\<close>,
  \<^verbatim>\<open>NavBar.js\<close>, \<^verbatim>\<open>Header.js\<close>, \<^verbatim>\<open>Layout.js\<close>, in their final versions in
  \<^verbatim>\<open>content/post/Responsive-animated-sidebar-layout-react-tailwind.md\<close>) are pure functions
  from props (and, for \<^verbatim>\<open>NavBar\<close>, the value of its \<^verbatim>\<open>useState\<close> cell) to a JSX tree.
  The tree is modelled as the code writes it: every element keeps its tag, its
  \<^verbatim>\<open>className\<close> string exactly as the template literal builds it, its \<^verbatim>\<open>onClick\<close>
  handler and its children in source order.
\<close>

datatype jsval = JBool bool | JStr string

text \<open>\<^verbatim>\<open>b && "s"\<close> on a boolean \<^verbatim>\<open>b\<close>: the left operand itself when it is falsy.\<close>

definition js_and :: "bool \<Rightarrow> string \<Rightarrow> jsval" where
  "js_and b s = (if b then JStr s else JBool b)"

text \<open>What \<^verbatim>\<open>${...}\<close> inside a template literal appends for a value.\<close>

fun js_to_string :: "jsval \<Rightarrow> string" where
  "js_to_string (JBool b) = (if b then ''true'' else ''false'')"
| "js_to_string (JStr s) = s"

text \<open>
  A handler is the state updater it hands to \<^verbatim>\<open>setIsMinimized\<close>. \<open>IconNode\<close> stands for
  a component of \<^verbatim>\<open>react-icons\<close>, kept opaque under its name.
\<close>

datatype jsx =
    Element (tag: string) (className: string) (onClick: "(bool \<Rightarrow> bool) option")
      (children: "jsx list")
  | TextNode string
  | BoolNode bool
  | IconNode string

text \<open>\<^verbatim>\<open>{cond && (<div .../>)}\<close>: the element, or the boolean \<^verbatim>\<open>false\<close> as a child.\<close>

definition js_and_jsx :: "bool \<Rightarrow> jsx \<Rightarrow> jsx" where
  "js_and_jsx b e = (if b then e else BoolNode b)"

text \<open>React renders nothing for a boolean child; every other child stays.\<close>

fun is_bool_node :: "jsx \<Rightarrow> bool" where
  "is_bool_node (BoolNode b) = True"
| "is_bool_node e = False"

definition react_children :: "jsx \<Rightarrow> jsx list" where
  "react_children e = filter (\<lambda>c. \<not> is_bool_node c) (children e)"

text \<open>Every node of a JSX tree, the root first.\<close>

fun nodes :: "jsx \<Rightarrow> jsx list" where
  "nodes (Element tg cls h cs) = Element tg cls h cs # concat (map nodes cs)"
| "nodes e = [e]"

section \<open>Class attributes under the two viewport classes\<close>

text \<open>
  The article's layout has two arrangements, chosen by Tailwind's \<^verbatim>\<open>lg:\<close> breakpoint:
  \<open>Narrow\<close> is a viewport below it (bottom navigation), \<open>Wide\<close> one at or above it
  (sidebar).
\<close>

datatype viewport = Narrow | Wide

text \<open>A class attribute is a list of tokens separated by ASCII whitespace.\<close>

definition is_space :: "char \<Rightarrow> bool" where
  "is_space c = (c = CHR '' '' \<or> c = CHR 0x09 \<or> c = CHR 0x0A \<or> c = CHR 0x0C \<or> c = CHR 0x0D)"

fun split_ws :: "string \<Rightarrow> string \<Rightarrow> string list" where
  "split_ws cur [] = (if cur = [] then [] else [cur])"
| "split_ws cur (c # cs) =
     (if is_space c then (if cur = [] then split_ws [] cs else cur # split_ws [] cs)
      else split_ws (cur @ [c]) cs)"

definition class_tokens :: "string \<Rightarrow> string list" where
  "class_tokens s = split_ws [] s"

text \<open>A token \<^verbatim>\<open>lg:u\<close> is the utility \<^verbatim>\<open>u\<close> inside the media query of the breakpoint.\<close>

definition strip_lg :: "string \<Rightarrow> string option" where
  "strip_lg t = (if take 3 t = ''lg:'' then Some (drop 3 t) else None)"

text \<open>
  The declarations of the Tailwind utilities that the components use and that decide
  layout: display, flex direction, sizes, shrinking, overflow and transform. The article
  itself gives several of them (\<^verbatim>\<open>h-screen\<close> is 100vh, \<^verbatim>\<open>h-20\<close> is 5rem, \<^verbatim>\<open>rotate-180\<close>
  is \<^verbatim>\<open>transform: rotate(180deg)\<close>, \<^verbatim>\<open>flex-shrink-0\<close> is \<^verbatim>\<open>flex-shrink: 0\<close>). Utilities of
  colour, spacing, typography and the pointer-state variants (\<^verbatim>\<open>hover:\<close>,
  \<^verbatim>\<open>group-hover:\<close>) are not tracked, and a token that is no utility at all, such as the
  \<^verbatim>\<open>false\<close> that a template literal leaves behind, has no declaration.
\<close>

definition tailwind_table :: "(string \<times> (string \<times> string) list) list" where
  "tailwind_table =
    [(''hidden'', [(''display'', ''none'')]),
     (''flex'', [(''display'', ''flex'')]),
     (''flex-row'', [(''flex-direction'', ''row'')]),
     (''flex-col'', [(''flex-direction'', ''column'')]),
     (''flex-col-reverse'', [(''flex-direction'', ''column-reverse'')]),
     (''flex-shrink-0'', [(''flex-shrink'', ''0'')]),
     (''flex-grow'', [(''flex-grow'', ''1'')]),
     (''flex-grow-0'', [(''flex-grow'', ''0'')]),
     (''w-full'', [(''width'', ''100%'')]),
     (''w-auto'', [(''width'', ''auto'')]),
     (''w-screen'', [(''width'', ''100vw'')]),
     (''w-12'', [(''width'', ''3rem'')]),
     (''h-screen'', [(''height'', ''100vh'')]),
     (''h-12'', [(''height'', ''3rem'')]),
     (''h-20'', [(''height'', ''5rem'')]),
     (''overflow-hidden'', [(''overflow'', ''hidden'')]),
     (''overflow-y-auto'', [(''overflow-y'', ''auto'')]),
     (''overflow-x-hidden'', [(''overflow-x'', ''hidden'')]),
     (''rotate-180'', [(''transform'', ''rotate(180deg)'')])]"

text \<open>An arbitrary value, \<^verbatim>\<open>w-[18rem]\<close>: the width is what stands between the brackets.\<close>

definition w_arbitrary :: "string \<Rightarrow> string option" where
  "w_arbitrary u =
     (if take 3 u = ''w-['' \<and> drop 3 u \<noteq> [] \<and> last u = CHR '']''
      then Some (butlast (drop 3 u)) else None)"

definition tailwind :: "string \<Rightarrow> (string \<times> string) list" where
  "tailwind u =
     (case map_of tailwind_table u of
        Some ds \<Rightarrow> ds
      | None \<Rightarrow> (case w_arbitrary u of Some v \<Rightarrow> [(''width'', v)] | None \<Rightarrow> []))"

text \<open>
  The declarations that apply to an element: those of its plain tokens, then, in a wide
  viewport only, those of its \<^verbatim>\<open>lg:\<close> tokens. Tailwind emits the rules of a breakpoint
  after the plain ones, so a later declaration of a property wins.
\<close>

definition style_of :: "viewport \<Rightarrow> string \<Rightarrow> (string \<times> string) list" where
  "style_of vp cls =
     concat (map tailwind (filter (\<lambda>t. strip_lg t = None) (class_tokens cls))) @
     (if vp = Wide then concat (map tailwind (List.map_filter strip_lg (class_tokens cls)))
      else [])"

definition css :: "(string \<times> string) list \<Rightarrow> string \<Rightarrow> string option" where
  "css st p = map_of (rev st) p"

text \<open>
  What a viewport shows of a JSX tree: an element whose display is \<^verbatim>\<open>none\<close> generates
  no box, and neither do its descendants; a boolean child renders nothing.
\<close>

datatype box =
    Box string "(string \<times> string) list" "(bool \<Rightarrow> bool) option" "box list"
  | TextBox string
  | IconBox string

fun render :: "viewport \<Rightarrow> jsx \<Rightarrow> box list" where
  "render vp (Element tg cls h cs) =
     (if css (style_of vp cls) ''display'' = Some ''none'' then []
      else [Box tg (style_of vp cls) h (concat (map (render vp) cs))])"
| "render vp (TextNode s) = [TextBox s]"
| "render vp (BoolNode b) = []"
| "render vp (IconNode n) = [IconBox n]"

section \<open>NavItem\<close>

text \<open>
  \<^verbatim>\<open>const NavItem = ({ text = "Default", icon = "", isMinimized }) => ...\<close>. A prop that
  is missing (\<^verbatim>\<open>undefined\<close>) is \<open>None\<close>, and the default of the parameter list replaces
  it. An icon that is given is an element of a \<^verbatim>\<open>react-icons\<close> component, as in
  \<^verbatim>\<open>routes.js\<close>, named by the component.
\<close>

definition NavItem_label_className :: "bool \<Rightarrow> string" where
  "NavItem_label_className isMinimized =
     ''text-sm lg:text-lg lg:ml-4 text-gray-200 '' @ js_to_string (js_and isMinimized ''lg:hidden'')"

definition NavItem_label :: "string option \<Rightarrow> bool \<Rightarrow> jsx" where
  "NavItem_label text_prop isMinimized =
     Element ''p'' (NavItem_label_className isMinimized) None
       [TextNode (case text_prop of None \<Rightarrow> ''Default'' | Some t \<Rightarrow> t)]"

definition NavItem_icon_slot :: "string option \<Rightarrow> jsx" where
  "NavItem_icon_slot icon_prop =
     Element ''div''
       ''flex justify-center items-center text-4xl text-gray-400 group-hover:text-gray-100'' None
       [case icon_prop of None \<Rightarrow> TextNode '''' | Some i \<Rightarrow> IconNode i]"

definition NavItem :: "string option \<Rightarrow> string option \<Rightarrow> bool \<Rightarrow> jsx" where
  "NavItem text_prop icon_prop isMinimized =
     Element ''div''
       ''group flex-grow lg:flex-grow-0 flex flex-col lg:flex-row items-center p-4 cursor-pointer rounded-lg hover:bg-gray-600''
       None
       [NavItem_icon_slot icon_prop, NavItem_label text_prop isMinimized]"

section \<open>NavHeader\<close>

text \<open>
  \<^verbatim>\<open>const NavHeader = ({ onToggle, isMinimized }) => ...\<close>: the branding block under
  \<^verbatim>\<open>{!isMinimized && (...)}\<close>, then the control whose \<^verbatim>\<open>onClick\<close> calls \<^verbatim>\<open>onToggle\<close>.
\<close>

definition NavHeader_branding :: jsx where
  "NavHeader_branding =
     Element ''div'' ''flex-shrink-0 flex items-center mr-12'' None
       [Element ''div''
          ''flex items-center justify-center w-12 h-12 rounded-lg bg-gray-600 text-2xl'' None
          [TextNode ''J''],
        Element ''div'' ''flex flex-col p-2'' None
          [Element ''h6'' ''text-lg text-gray-200'' None [TextNode ''The Junto''],
           Element ''p'' ''text-sm text-gray-300'' None [TextNode ''Tailwind Demo'']]]"

definition NavHeader_control_className :: "bool \<Rightarrow> string" where
  "NavHeader_control_className isMinimized =
     ''text-gray-400 text-3xl cursor-pointer hover:text-gray-300 transition duration-200 '' @
     js_to_string (js_and isMinimized ''rotate-180'')"

definition NavHeader_control :: "(bool \<Rightarrow> bool) \<Rightarrow> bool \<Rightarrow> jsx" where
  "NavHeader_control onToggle isMinimized =
     Element ''div'' (NavHeader_control_className isMinimized) (Some onToggle)
       [IconNode ''HiChevronDoubleLeft'']"

definition NavHeader_className :: string where
  "NavHeader_className = ''hidden lg:flex items-center justify-between p-4 lg:h-20''"

definition NavHeader :: "(bool \<Rightarrow> bool) \<Rightarrow> bool \<Rightarrow> jsx" where
  "NavHeader onToggle isMinimized =
     Element ''div'' NavHeader_className None
       [js_and_jsx (\<not> isMinimized) NavHeader_branding, NavHeader_control onToggle isMinimized]"

section \<open>NavBar\<close>

text \<open>
  \<^verbatim>\<open>routes.js\<close> exports a sequence of entries with a \<^verbatim>\<open>text\<close> and an \<^verbatim>\<open>icon\<close>; a field
  that an entry lacks reads as \<^verbatim>\<open>undefined\<close>. The literal in the article has no opening
  bracket; the four entries are taken in the order written.
\<close>

record route =
  route_text :: "string option"
  route_icon :: "string option"

definition routes :: "route list" where
  "routes =
     [\<lparr>route_text = Some ''Inbox'', route_icon = Some ''HiInbox''\<rparr>,
      \<lparr>route_text = Some ''Projects'', route_icon = Some ''HiRectangleGroup''\<rparr>,
      \<lparr>route_text = Some ''Recruiting'', route_icon = Some ''BsPeopleFill''\<rparr>,
      \<lparr>route_text = Some ''Learning'', route_icon = Some ''HiBookOpen''\<rparr>]"

text \<open>
  \<^verbatim>\<open>const [isMinimized, setIsMinimized] = useState(false)\<close>: the cell starts at the
  argument of \<^verbatim>\<open>useState\<close> whenever the component mounts, and the only updater handed to
  \<^verbatim>\<open>setIsMinimized\<close> is \<^verbatim>\<open>(current) => !current\<close>.
\<close>

definition NavBar_initial :: bool where
  "NavBar_initial = False"

definition toggle :: "bool \<Rightarrow> bool" where
  "toggle current = (\<not> current)"

text \<open>
  The template literal of the \<^verbatim>\<open>nav\<close> element, with its line breaks and the tabs of
  two of its lines.
\<close>

definition NavBar_className :: "bool \<Rightarrow> string" where
  "NavBar_className isMinimized =
     [CHR 0x0A, CHR 0x09, CHR 0x09, CHR 0x09] @ ''bg-gray-900 text-gray-100'' @
     [CHR 0x0A, CHR 0x0A] @ ''      lg:flex-shrink-0'' @
     [CHR 0x0A, CHR 0x0A] @ ''      flex flex-row justify-around'' @
     [CHR 0x0A, CHR 0x09, CHR 0x09, CHR 0x09] @ ''lg:flex-col lg:justify-start'' @
     [CHR 0x0A] @ ''      w-full '' @ (if isMinimized then ''lg:w-[5.5rem]'' else ''lg:w-[18rem]'') @
     [CHR 0x0A, CHR 0x0A] @ ''      lg:p-2'' @
     [CHR 0x0A] @ ''      lg:overflow-y-auto'' @
     [CHR 0x0A] @ ''      lg:transition-[width] lg:duration-200'' @
     [CHR 0x0A] @ ''      ''"

text \<open>The decimal digits that \<^verbatim>\<open>${index}\<close> appends for an array index.\<close>

fun nat_to_string :: "nat \<Rightarrow> string" where
  "nat_to_string n =
     (if n < 10 then [''0123456789'' ! n]
      else nat_to_string (n div 10) @ [''0123456789'' ! (n mod 10)])"

declare nat_to_string.simps [simp del]

text \<open>
  \<^verbatim>\<open>routes.map((route, index) => <NavItem key={`navitem-${index}`} text={route.text}
  icon={route.icon} isMinimized={isMinimized} />)\<close>: each item with its key.
\<close>

definition NavBar_items :: "route list \<Rightarrow> bool \<Rightarrow> (string \<times> jsx) list" where
  "NavBar_items rs isMinimized =
     map (\<lambda>(index, route).
            (''navitem-'' @ nat_to_string index,
             NavItem (route_text route) (route_icon route) isMinimized))
       (enumerate 0 rs)"

definition NavBar :: "route list \<Rightarrow> bool \<Rightarrow> jsx" where
  "NavBar rs isMinimized =
     Element ''nav'' (NavBar_className isMinimized) None
       (NavHeader toggle isMinimized # map snd (NavBar_items rs isMinimized))"

section \<open>Header and Layout\<close>

definition Header :: jsx where
  "Header =
     Element ''div'' ''w-full p-4'' None
       [Element ''h1'' ''text-lg mb-4'' None [TextNode ''The Junto''],
        Element ''hr'' '''' None []]"

definition Layout_className :: string where
  "Layout_className =
     [CHR 0x0A] @ ''      h-screen w-screen overflow-hidden'' @
     [CHR 0x0A] @ ''      flex flex-col-reverse lg:flex-row'' @
     [CHR 0x0A] @ ''      lg:overflow-y-auto lg:overflow-x-hidden'' @
     [CHR 0x0A] @ ''      ''"

definition Layout_content :: "jsx list \<Rightarrow> jsx" where
  "Layout_content children_prop =
     Element ''div'' ''flex flex-col overflow-y-auto'' None (Header # children_prop)"

text \<open>
  \<^verbatim>\<open>Layout\<close> has no state of its own; the arguments \<open>rs\<close> and \<open>isMinimized\<close> are
  the imported routes and the state cell of the \<^verbatim>\<open>NavBar\<close> it mounts.
\<close>

definition Layout :: "route list \<Rightarrow> bool \<Rightarrow> jsx list \<Rightarrow> jsx" where
  "Layout rs isMinimized children_prop =
     Element ''div'' Layout_className None
       [NavBar rs isMinimized, Layout_content children_prop]"

text \<open>
  The order in which a box lays out its children: a flex container with a reversed
  direction shows them last to first.
\<close>

fun visual_children :: "box \<Rightarrow> box list" where
  "visual_children (Box tg st h bs) =
     (if css st ''display'' = Some ''flex'' \<and>
         (css st ''flex-direction'' = Some ''column-reverse'' \<or>
          css st ''flex-direction'' = Some ''row-reverse'')
      then rev bs else bs)"
| "visual_children b = []"

section \<open>The mounted NavBar and its events\<close>

text \<open>
  A click lands on a box of what the viewport shows, given by the path of child indices
  from the rendered \<^verbatim>\<open>nav\<close>, and bubbles: the handlers on the path run, the innermost
  first. A box that is not displayed has no path.
\<close>

fun handlers_at :: "box list \<Rightarrow> nat list \<Rightarrow> (bool \<Rightarrow> bool) list" where
  "handlers_at bs [] = []"
| "handlers_at bs (i # p) =
     (if i < length bs then
        (case bs ! i of
           Box tg st h cs \<Rightarrow> handlers_at cs p @ (case h of None \<Rightarrow> [] | Some f \<Rightarrow> [f])
         | TextBox s \<Rightarrow> []
         | IconBox n \<Rightarrow> [])
      else [])"

record app =
  vp :: viewport
  isMinimized :: bool

datatype event = Click "nat list" | Resize viewport | Remount

definition mount :: "viewport \<Rightarrow> app" where
  "mount v = \<lparr>vp = v, isMinimized = NavBar_initial\<rparr>"

fun step :: "route list \<Rightarrow> app \<Rightarrow> event \<Rightarrow> app" where
  "step rs a (Click p) =
     a\<lparr>isMinimized :=
         fold (\<lambda>f s. f s) (handlers_at (render (vp a) (NavBar rs (isMinimized a))) p)
           (isMinimized a)\<rparr>"
| "step rs a (Resize v) = a\<lparr>vp := v\<rparr>"
| "step rs a Remount = a\<lparr>isMinimized := NavBar_initial\<rparr>"

definition run :: "route list \<Rightarrow> app \<Rightarrow> event list \<Rightarrow> app" where
  "run rs a es = foldl (step rs) a es"

text \<open>Every handler inside a rendered box, and the handler a JSX node carries itself.\<close>

fun box_handlers :: "box \<Rightarrow> (bool \<Rightarrow> bool) list" where
  "box_handlers (Box tg st h bs) =
     (case h of None \<Rightarrow> [] | Some f \<Rightarrow> [f]) @ concat (map box_handlers bs)"
| "box_handlers b = []"

fun node_handler :: "jsx \<Rightarrow> (bool \<Rightarrow> bool) list" where
  "node_handler (Element tg cls h cs) = (case h of None \<Rightarrow> [] | Some f \<Rightarrow> [f])"
| "node_handler e = []"

text \<open>The declarations of the root element of a \<^verbatim>\<open>NavItem\<close> in each viewport.\<close>

definition NavItem_style :: "viewport \<Rightarrow> (string \<times> string) list" where
  "NavItem_style v =
     [(''flex-grow'', ''1''), (''display'', ''flex''), (''flex-direction'', ''column'')] @
     (if v = Wide then [(''flex-grow'', ''0''), (''flex-direction'', ''row'')] else [])"

section \<open>Evaluating class attributes\<close>

lemmas tw_eval = class_tokens_def is_space_def strip_lg_def tailwind_def tailwind_table_def
  w_arbitrary_def List.map_filter_def js_and_def css_def

lemma NavItem_label_tokens:
  "class_tokens (NavItem_label_className s) =
     [''text-sm'', ''lg:text-lg'', ''lg:ml-4'', ''text-gray-200'',
      if s then ''lg:hidden'' else ''false'']"
  by (cases s) (simp_all add: NavItem_label_className_def class_tokens_def is_space_def js_and_def)

lemma NavItem_label_style:
  "style_of v (NavItem_label_className s) =
     (if v = Wide \<and> s then [(''display'', ''none'')] else [])"
  unfolding style_of_def NavItem_label_tokens
  by (cases s; cases v) (simp_all add: tw_eval)

lemma NavItem_icon_slot_style:
  "style_of v ''flex justify-center items-center text-4xl text-gray-400 group-hover:text-gray-100''
     = [(''display'', ''flex'')]"
  by (cases v) (simp_all add: style_of_def tw_eval)

lemma NavItem_root_style:
  "style_of v ''group flex-grow lg:flex-grow-0 flex flex-col lg:flex-row items-center p-4 cursor-pointer rounded-lg hover:bg-gray-600''
     = NavItem_style v"
  by (cases v) (simp_all add: style_of_def NavItem_style_def tw_eval)

lemma NavHeader_tokens:
  "class_tokens NavHeader_className =
     [''hidden'', ''lg:flex'', ''items-center'', ''justify-between'', ''p-4'', ''lg:h-20'']"
  by (simp add: NavHeader_className_def class_tokens_def is_space_def)

lemma NavHeader_style:
  "style_of v NavHeader_className =
     (''display'', ''none'') #
     (if v = Wide then [(''display'', ''flex''), (''height'', ''5rem'')] else [])"
  unfolding style_of_def NavHeader_tokens
  by (cases v) (simp_all add: tw_eval)

lemma NavHeader_control_tokens:
  "class_tokens (NavHeader_control_className s) =
     [''text-gray-400'', ''text-3xl'', ''cursor-pointer'', ''hover:text-gray-300'',
      ''transition'', ''duration-200'', if s then ''rotate-180'' else ''false'']"
  by (cases s)
    (simp_all add: NavHeader_control_className_def class_tokens_def is_space_def js_and_def)

lemma NavHeader_control_style:
  "style_of v (NavHeader_control_className s) =
     (if s then [(''transform'', ''rotate(180deg)'')] else [])"
  unfolding style_of_def NavHeader_control_tokens
  by (cases s; cases v) (simp_all add: tw_eval)

lemma NavBar_tokens:
  "class_tokens (NavBar_className s) =
     [''bg-gray-900'', ''text-gray-100'', ''lg:flex-shrink-0'', ''flex'', ''flex-row'',
      ''justify-around'', ''lg:flex-col'', ''lg:justify-start'', ''w-full'',
      if s then ''lg:w-[5.5rem]'' else ''lg:w-[18rem]'', ''lg:p-2'', ''lg:overflow-y-auto'',
      ''lg:transition-[width]'', ''lg:duration-200'']"
  by (cases s) (simp_all add: NavBar_className_def class_tokens_def is_space_def)

lemma NavBar_style:
  "style_of v (NavBar_className s) =
     [(''display'', ''flex''), (''flex-direction'', ''row''), (''width'', ''100%'')] @
     (if v = Wide
      then [(''flex-shrink'', ''0''), (''flex-direction'', ''column''),
            (''width'', if s then ''5.5rem'' else ''18rem''), (''overflow-y'', ''auto'')]
      else [])"
  unfolding style_of_def NavBar_tokens
  by (cases s; cases v) (simp_all add: tw_eval)

lemma Layout_tokens:
  "class_tokens Layout_className =
     [''h-screen'', ''w-screen'', ''overflow-hidden'', ''flex'', ''flex-col-reverse'',
      ''lg:flex-row'', ''lg:overflow-y-auto'', ''lg:overflow-x-hidden'']"
  by (simp add: Layout_className_def class_tokens_def is_space_def)

lemma Layout_style:
  "style_of v Layout_className =
     [(''height'', ''100vh''), (''width'', ''100vw''), (''overflow'', ''hidden''),
      (''display'', ''flex''), (''flex-direction'', ''column-reverse'')] @
     (if v = Wide
      then [(''flex-direction'', ''row''), (''overflow-y'', ''auto''),
            (''overflow-x'', ''hidden'')]
      else [])"
  unfolding style_of_def Layout_tokens
  by (cases v) (simp_all add: tw_eval)

lemma Layout_content_style:
  "style_of v ''flex flex-col overflow-y-auto'' =
     [(''display'', ''flex''), (''flex-direction'', ''column''), (''overflow-y'', ''auto'')]"
  by (cases v) (simp_all add: style_of_def tw_eval)

lemma branding_style:
  "style_of v ''flex-shrink-0 flex items-center mr-12'' =
     [(''flex-shrink'', ''0''), (''display'', ''flex'')]"
  by (cases v) (simp_all add: style_of_def tw_eval)

section \<open>What each component renders\<close>

lemma render_NavItem_label:
  "render v (NavItem_label t s) =
     (if v = Wide \<and> s then []
      else [Box ''p'' [] None [TextBox (case t of None \<Rightarrow> ''Default'' | Some x \<Rightarrow> x)]])"
  by (simp add: NavItem_label_def NavItem_label_style css_def)

lemma render_NavItem_icon_slot:
  "render v (NavItem_icon_slot i) =
     [Box ''div'' [(''display'', ''flex'')] None
        [case i of None \<Rightarrow> TextBox '''' | Some n \<Rightarrow> IconBox n]]"
  by (simp add: NavItem_icon_slot_def NavItem_icon_slot_style css_def split: option.split)

lemma render_NavItem:
  "render v (NavItem t i s) =
     [Box ''div'' (NavItem_style v) None
        (render v (NavItem_icon_slot i) @ render v (NavItem_label t s))]"
  unfolding NavItem_def render.simps NavItem_root_style
  by (cases v) (simp_all add: NavItem_style_def css_def)

lemma render_NavHeader_control:
  "render v (NavHeader_control f s) =
     [Box ''div'' (if s then [(''transform'', ''rotate(180deg)'')] else []) (Some f)
        [IconBox ''HiChevronDoubleLeft'']]"
  by (simp add: NavHeader_control_def NavHeader_control_style css_def)

lemma render_NavHeader_branding:
  "render v NavHeader_branding =
     [Box ''div'' [(''flex-shrink'', ''0''), (''display'', ''flex'')] None
        (concat (map (render v) (children NavHeader_branding)))]"
  unfolding NavHeader_branding_def render.simps branding_style
  by (simp add: css_def)

lemma render_NavHeader_Narrow:
  "render Narrow (NavHeader f s) = []"
  by (simp add: NavHeader_def NavHeader_style css_def)

lemma render_NavHeader_Wide:
  "render Wide (NavHeader f s) =
     [Box ''div'' [(''display'', ''none''), (''display'', ''flex''), (''height'', ''5rem'')] None
        ((if s then [] else render Wide NavHeader_branding) @
         render Wide (NavHeader_control f s))]"
  unfolding NavHeader_def render.simps NavHeader_style
  by (simp add: css_def js_and_jsx_def)

lemma render_NavBar:
  "render v (NavBar rs s) =
     [Box ''nav'' (style_of v (NavBar_className s)) None
        (render v (NavHeader toggle s) @
         concat (map (render v) (map snd (NavBar_items rs s))))]"
  unfolding NavBar_def render.simps
  by (cases v) (simp_all add: NavBar_style css_def)

lemma map_snd_of_enumerate:
  "map (\<lambda>x. f (snd x)) (enumerate n xs) = map f xs"
  by (induction xs arbitrary: n) simp_all

lemma map_fst_of_enumerate:
  "map (\<lambda>x. f (fst x)) (enumerate n xs) = map f [n..<n + length xs]"
proof -
  have "map (\<lambda>x. f (fst x)) (enumerate n xs) = map f (map fst (enumerate n xs))"
    by (simp only: map_map comp_def)
  also have "\<dots> = map f [n..<n + length xs]"
    by (simp only: map_fst_enumerate)
  finally show ?thesis .
qed

lemma items_in_order:
  "map snd (NavBar_items rs s) = map (\<lambda>r. NavItem (route_text r) (route_icon r) s) rs"
  using map_snd_of_enumerate [of "\<lambda>r. NavItem (route_text r) (route_icon r) s" 0 rs]
  by (simp add: NavBar_items_def case_prod_unfold comp_def)

lemma item_keys:
  "map fst (NavBar_items rs s) =
     map (\<lambda>index. ''navitem-'' @ nat_to_string index) [0..<length rs]"
  using map_fst_of_enumerate [of "\<lambda>index. ''navitem-'' @ nat_to_string index" 0 rs]
  by (simp add: NavBar_items_def case_prod_unfold comp_def)

lemma rendered_items_count:
  "length (concat (map (render v) (map (\<lambda>r. NavItem (route_text r) (route_icon r) s) rs)))
     = length rs"
  by (induction rs) (simp_all add: render_NavItem)


section \<open>Handlers and clicks\<close>

lemma handlers_at_none:
  "concat (map box_handlers bs) = [] \<Longrightarrow> handlers_at bs p = []"
proof (induction p arbitrary: bs)
  case Nil
  show ?case by simp
next
  case (Cons i p)
  show ?case
  proof (cases "i < length bs")
    case False
    then show ?thesis by simp
  next
    case True
    then have mem: "bs ! i \<in> set bs" by simp
    from Cons.prems have all: "\<And>b. b \<in> set bs \<Longrightarrow> box_handlers b = []" by simp
    have none: "box_handlers (bs ! i) = []" using all [OF mem] .
    show ?thesis
    proof (cases "bs ! i")
      case (Box tg st h cs)
      with none have "h = None" and "concat (map box_handlers cs) = []"
        by (auto split: option.splits)
      with Cons.IH [of cs] True Box show ?thesis by simp
    next
      case (TextBox s)
      with True show ?thesis by simp
    next
      case (IconBox n)
      with True show ?thesis by simp
    qed
  qed
qed

lemma NavItem_box_handlers:
  "concat (map box_handlers (render v (NavItem t i s))) = []"
  by (simp add: render_NavItem render_NavItem_icon_slot render_NavItem_label
      split: option.split)

lemma items_box_handlers:
  "concat (map box_handlers
     (concat (map (render v) (map (\<lambda>r. NavItem (route_text r) (route_icon r) s) rs)))) = []"
proof (induction rs)
  case Nil
  show ?case by simp
next
  case (Cons r rs)
  have "concat (map box_handlers (render v (NavItem (route_text r) (route_icon r) s))) = []"
    by (rule NavItem_box_handlers)
  with Cons.IH show ?case by simp
qed

lemma NavBar_Narrow_box_handlers:
  "concat (map box_handlers (render Narrow (NavBar rs s))) = []"
  using items_box_handlers [of Narrow s rs]
  by (simp add: render_NavBar render_NavHeader_Narrow items_in_order)

lemma NavBar_Narrow_handlers_at:
  "handlers_at (render Narrow (NavBar rs s)) p = []"
  by (rule handlers_at_none [OF NavBar_Narrow_box_handlers])

lemma step_Narrow_Click:
  "step rs \<lparr>vp = Narrow, isMinimized = s\<rparr> (Click p) = \<lparr>vp = Narrow, isMinimized = s\<rparr>"
  by (simp add: NavBar_Narrow_handlers_at)

lemma run_Narrow_Clicks:
  "run rs \<lparr>vp = Narrow, isMinimized = s\<rparr> (map Click ps) = \<lparr>vp = Narrow, isMinimized = s\<rparr>"
  unfolding run_def
  by (induction ps) (simp_all only: list.map foldl.simps step_Narrow_Click)

lemma control_click_Wide:
  "handlers_at (render Wide (NavBar rs s)) [0, 0, if s then 0 else 1] = [toggle]"
  by (simp add: render_NavBar render_NavHeader_Wide render_NavHeader_branding
      render_NavHeader_control)

lemma NavItem_node_handlers:
  "concat (map node_handler (nodes (NavItem t i s))) = []"
  by (simp add: NavItem_def NavItem_icon_slot_def NavItem_label_def split: option.split)

lemma items_node_handlers:
  "concat (map node_handler
     (concat (map nodes (map (\<lambda>r. NavItem (route_text r) (route_icon r) s) rs)))) = []"
proof (induction rs)
  case Nil
  show ?case by simp
next
  case (Cons r rs)
  have "concat (map node_handler (nodes (NavItem (route_text r) (route_icon r) s))) = []"
    by (rule NavItem_node_handlers)
  with Cons.IH show ?case by simp
qed

lemma NavHeader_node_handlers:
  "concat (map node_handler (nodes (NavHeader f s))) = [f]"
  by (simp add: NavHeader_def NavHeader_control_def NavHeader_branding_def js_and_jsx_def)

lemma NavBar_node_handlers:
  "concat (map node_handler (nodes (NavBar rs s))) = [toggle]"
proof -
  have "nodes (NavBar rs s) =
      NavBar rs s # nodes (NavHeader toggle s) @
      concat (map nodes (map (\<lambda>r. NavItem (route_text r) (route_icon r) s) rs))"
    by (simp add: NavBar_def items_in_order)
  moreover have "node_handler (NavBar rs s) = []"
    by (simp add: NavBar_def)
  ultimately show ?thesis
    using items_node_handlers [of s rs] NavHeader_node_handlers [of toggle s] by simp
qed

section \<open>The routes of the article\<close>

lemma routes_keys:
  "map fst (NavBar_items routes s) = [''navitem-0'', ''navitem-1'', ''navitem-2'', ''navitem-3'']"
  by (simp add: NavBar_items_def routes_def nat_to_string.simps)

lemma routes_labels_Narrow:
  "map (\<lambda>e. render Narrow (NavItem_label (route_text e) True)) routes =
     [[Box ''p'' [] None [TextBox ''Inbox'']], [Box ''p'' [] None [TextBox ''Projects'']],
      [Box ''p'' [] None [TextBox ''Recruiting'']], [Box ''p'' [] None [TextBox ''Learning'']]]"
  by (simp add: routes_def render_NavItem_label)

section \<open>Properties of the sidebar\<close>


text \<open>
  C2. In the narrow viewport \<^verbatim>\<open>Layout\<close> shows the content region first and the
  navigation region after it; in the wide viewport it shows the navigation region before
  the content region. Both regions are shown in both viewports, the class attribute of
  \<^verbatim>\<open>Layout\<close> is a constant, the order does not depend on the state of the sidebar, and a
  change of viewport leaves that state as it is.
\<close>

theorem Layout_arrangement_by_viewport:
  "map visual_children (render Narrow (Layout rs s c)) =
     [render Narrow (Layout_content c) @ render Narrow (NavBar rs s)] \<and>
   map visual_children (render Wide (Layout rs s c)) =
     [render Wide (NavBar rs s) @ render Wide (Layout_content c)] \<and>
   length (render v (NavBar rs s)) = 1 \<and>
   length (render v (Layout_content c)) = 1 \<and>
   className (Layout rs s c) = Layout_className \<and>
   children (Layout rs s c) = [NavBar rs s, Layout_content c] \<and>
   isMinimized (step rs a (Resize v)) = isMinimized a"
proof -
  have nav: "length (render v (NavBar rs s)) = 1" for v
    by (simp add: render_NavBar)
  have con: "length (render v (Layout_content c)) = 1" for v
    by (simp add: Layout_content_def Layout_content_style css_def)
  have narrow: "map visual_children (render Narrow (Layout rs s c)) =
     [render Narrow (Layout_content c) @ render Narrow (NavBar rs s)]"
    using nav [of Narrow] con [of Narrow]
    by (simp add: Layout_def Layout_style css_def length_Suc_conv) auto
  have wide: "map visual_children (render Wide (Layout rs s c)) =
     [render Wide (NavBar rs s) @ render Wide (Layout_content c)]"
    by (simp add: Layout_def Layout_style css_def)
  show ?thesis
    using nav con narrow wide by (simp add: Layout_def)
qed

text \<open>
  C3. The width of \<^verbatim>\<open>NavBar\<close> in the wide viewport is a function of the sidebar state
  with two literal values, 18rem when expanded and 5.5rem when minimized, and it is never
  \<^verbatim>\<open>auto\<close>.
\<close>

theorem NavBar_width_literal:
  "className (NavBar rs s) = NavBar_className s \<and>
   css (style_of Wide (NavBar_className s)) ''width'' = Some (if s then ''5.5rem'' else ''18rem'') \<and>
   css (style_of Wide (NavBar_className False)) ''width'' = Some ''18rem'' \<and>
   css (style_of Wide (NavBar_className True)) ''width'' = Some ''5.5rem'' \<and>
   css (style_of Wide (NavBar_className s)) ''width'' \<noteq> Some ''auto'' \<and>
   css (style_of Wide (NavBar_className s)) ''width'' \<noteq> None"
  by (simp add: NavBar_def NavBar_style css_def)

text \<open>
  C4. The toggle is an involution: applied twice to any sidebar state it returns that
  state, so \<^verbatim>\<open>NavBar\<close> emits the same tree again; and from the initial state, two
  clicks on the control in the wide viewport lead back to the initial state.
\<close>

theorem toggle_involution:
  "toggle (toggle s) = s \<and>
   NavBar rs (toggle (toggle s)) = NavBar rs s \<and>
   NavBar rs (toggle (toggle NavBar_initial)) = NavBar rs NavBar_initial \<and>
   isMinimized (run rs (mount Wide) [Click [0, 0, 1]]) = True \<and>
   run rs (mount Wide) [Click [0, 0, 1], Click [0, 0, 0]] = mount Wide"
proof -
  have tt: "toggle (toggle s) = s" for s
    by (simp add: toggle_def)
  have c1: "handlers_at (render Wide (NavBar rs False)) [0, 0, 1] = [toggle]"
    using control_click_Wide [of rs False] by simp
  have c2: "handlers_at (render Wide (NavBar rs True)) [0, 0, 0] = [toggle]"
    using control_click_Wide [of rs True] by simp
  have s1: "step rs \<lparr>vp = Wide, isMinimized = False\<rparr> (Click [0, 0, 1]) =
      \<lparr>vp = Wide, isMinimized = True\<rparr>"
    unfolding step.simps by (simp only: app.select_convs c1) (simp add: toggle_def)
  have s2: "step rs \<lparr>vp = Wide, isMinimized = True\<rparr> (Click [0, 0, 0]) =
      \<lparr>vp = Wide, isMinimized = False\<rparr>"
    unfolding step.simps by (simp only: app.select_convs c2) (simp add: toggle_def)
  show ?thesis
    by (simp add: tt run_def mount_def NavBar_initial_def s1 [unfolded One_nat_def] s2
        del: step.simps)
qed


text \<open>
  C6. \<^verbatim>\<open>NavHeader\<close> emits the branding block exactly when the sidebar is expanded: when
  minimized, no node of the emitted tree is the branding block and React is left with the
  control alone. The control is emitted in both states with the handler it was given, and
  its icon is rotated by 180 degrees exactly when the sidebar is minimized: the class
  attribute of the control element itself holds \<^verbatim>\<open>rotate-180\<close> exactly then, the one
  element of the header's tree that carries a handler has the transform exactly then, and
  so has the control's box in what the wide viewport shows of the header.
\<close>

theorem NavHeader_branding_iff_expanded:
  "react_children (NavHeader f s) =
     (if s then [NavHeader_control f s] else [NavHeader_branding, NavHeader_control f s]) \<and>
   (NavHeader_branding \<in> set (nodes (NavHeader f s))) = (\<not> s) \<and>
   NavHeader_control f s \<in> set (nodes (NavHeader f s)) \<and>
   onClick (NavHeader_control f s) = Some f \<and>
   css (style_of v (NavHeader_control_className s)) ''transform'' =
     (if s then Some ''rotate(180deg)'' else None) \<and>
   (''rotate-180'' \<in> set (class_tokens (NavHeader_control_className s))) = s \<and>
   className (NavHeader_control f s) = NavHeader_control_className s \<and>
   css (style_of v (className (NavHeader_control f s))) ''transform'' =
     (if s then Some ''rotate(180deg)'' else None) \<and>
   (''rotate-180'' \<in> set (class_tokens (className (NavHeader_control f s)))) = s \<and>
   children (NavHeader_control f s) = [IconNode ''HiChevronDoubleLeft''] \<and>
   map (\<lambda>e. css (style_of v (className e)) ''transform'')
     (filter (\<lambda>e. node_handler e \<noteq> []) (nodes (NavHeader f s))) =
     [if s then Some ''rotate(180deg)'' else None] \<and>
   render Wide (NavHeader f s) =
     [Box ''div'' [(''display'', ''none''), (''display'', ''flex''), (''height'', ''5rem'')] None
        ((if s then [] else render Wide NavHeader_branding) @
         [Box ''div'' (if s then [(''transform'', ''rotate(180deg)'')] else []) (Some f)
            [IconBox ''HiChevronDoubleLeft'']])]"
proof -
  have kids: "react_children (NavHeader f s) =
     (if s then [NavHeader_control f s] else [NavHeader_branding, NavHeader_control f s])"
    by (simp add: react_children_def NavHeader_def js_and_jsx_def NavHeader_branding_def
        NavHeader_control_def)
  have absent: "(NavHeader_branding \<in> set (nodes (NavHeader f s))) = (\<not> s)"
    by (cases s)
      (simp_all add: NavHeader_def js_and_jsx_def NavHeader_branding_def NavHeader_control_def
        NavHeader_className_def)
  have control: "NavHeader_control f s \<in> set (nodes (NavHeader f s))"
    by (simp add: NavHeader_def NavHeader_control_def)
  have handler: "onClick (NavHeader_control f s) = Some f"
    by (simp add: NavHeader_control_def)
  have rot: "css (style_of v (NavHeader_control_className s)) ''transform'' =
     (if s then Some ''rotate(180deg)'' else None)"
    by (simp add: NavHeader_control_style css_def)
  have tok: "(''rotate-180'' \<in> set (class_tokens (NavHeader_control_className s))) = s"
    by (simp add: NavHeader_control_tokens)
  have cls: "className (NavHeader_control f s) = NavHeader_control_className s"
    by (simp add: NavHeader_control_def)
  have rot_el: "css (style_of v (className (NavHeader_control f s))) ''transform'' =
     (if s then Some ''rotate(180deg)'' else None)"
    unfolding cls by (rule rot)
  have tok_el: "(''rotate-180'' \<in> set (class_tokens (className (NavHeader_control f s)))) = s"
    unfolding cls by (rule tok)
  have icon: "children (NavHeader_control f s) = [IconNode ''HiChevronDoubleLeft'']"
    by (simp add: NavHeader_control_def)
  have with_handler: "filter (\<lambda>e. node_handler e \<noteq> []) (nodes (NavHeader f s)) =
     [NavHeader_control f s]"
    by (simp add: NavHeader_def NavHeader_control_def NavHeader_branding_def js_and_jsx_def)
  have rot_tree: "map (\<lambda>e. css (style_of v (className e)) ''transform'')
     (filter (\<lambda>e. node_handler e \<noteq> []) (nodes (NavHeader f s))) =
     [if s then Some ''rotate(180deg)'' else None]"
    unfolding with_handler using rot_el by simp
  have shown: "render Wide (NavHeader f s) =
     [Box ''div'' [(''display'', ''none''), (''display'', ''flex''), (''height'', ''5rem'')] None
        ((if s then [] else render Wide NavHeader_branding) @
         [Box ''div'' (if s then [(''transform'', ''rotate(180deg)'')] else []) (Some f)
            [IconBox ''HiChevronDoubleLeft'']])]"
    unfolding render_NavHeader_Wide render_NavHeader_control ..
  show ?thesis
    by (intro conjI kids absent control handler rot tok cls rot_el tok_el icon rot_tree shown)
qed

text \<open>
  C7. In both states of the sidebar the root element of \<^verbatim>\<open>NavHeader\<close> has the same
  class attribute, which holds \<^verbatim>\<open>lg:h-20\<close>: its height in the wide viewport is 5rem
  with or without the branding block.
\<close>

theorem NavHeader_fixed_height:
  "className (NavHeader f True) = className (NavHeader f False) \<and>
   ''lg:h-20'' \<in> set (class_tokens (className (NavHeader f s))) \<and>
   css (style_of Wide (className (NavHeader f s))) ''height'' = Some ''5rem''"
  by (simp add: NavHeader_def NavHeader_tokens NavHeader_style css_def)

text \<open>
  C8. For every sequence of routes and both states of the sidebar, \<^verbatim>\<open>NavBar\<close> emits, after
  its header, one \<^verbatim>\<open>NavItem\<close> for each route, in the order of the sequence, keyed by its
  index; and each viewport shows as many item boxes as there are routes.
\<close>

theorem NavBar_one_item_per_route:
  "length (NavBar_items rs s) = length rs \<and>
   map snd (NavBar_items rs s) = map (\<lambda>r. NavItem (route_text r) (route_icon r) s) rs \<and>
   map fst (NavBar_items rs s) =
     map (\<lambda>index. ''navitem-'' @ nat_to_string index) [0..<length rs] \<and>
   children (NavBar rs s) = NavHeader toggle s # map snd (NavBar_items rs s) \<and>
   length (concat (map (render v) (map snd (NavBar_items rs s)))) = length rs"
proof -
  have len: "length (NavBar_items rs s) = length rs"
    by (simp add: NavBar_items_def)
  have shown: "length (concat (map (render v) (map snd (NavBar_items rs s)))) = length rs"
    unfolding items_in_order by (rule rendered_items_count)
  show ?thesis
    using len shown items_in_order [of rs s] item_keys [of rs s] by (simp add: NavBar_def)
qed


text \<open>
  C10. In the narrow viewport the root element of \<^verbatim>\<open>NavHeader\<close> has display \<^verbatim>\<open>none\<close>
  (it is \<^verbatim>\<open>flex\<close> in the wide one), so it generates no box. The control inside it carries
  the only handler of \<^verbatim>\<open>NavBar\<close>, hence no click on anything the narrow viewport shows
  runs a handler, and any sequence of clicks there leaves the sidebar state as it was.
\<close>

theorem narrow_clicks_keep_state:
  "css (style_of Narrow (className (NavHeader f s))) ''display'' = Some ''none'' \<and>
   css (style_of Wide (className (NavHeader f s))) ''display'' = Some ''flex'' \<and>
   render Narrow (NavHeader f s) = [] \<and>
   concat (map node_handler (nodes (NavBar rs s))) = [toggle] \<and>
   handlers_at (render Narrow (NavBar rs s)) p = [] \<and>
   step rs \<lparr>vp = Narrow, isMinimized = s\<rparr> (Click p) = \<lparr>vp = Narrow, isMinimized = s\<rparr> \<and>
   run rs \<lparr>vp = Narrow, isMinimized = s\<rparr> (map Click ps) = \<lparr>vp = Narrow, isMinimized = s\<rparr>"
proof -
  have disp: "css (style_of Narrow (className (NavHeader f s))) ''display'' = Some ''none'' \<and>
      css (style_of Wide (className (NavHeader f s))) ''display'' = Some ''flex''"
    by (simp add: NavHeader_def NavHeader_style css_def)
  show ?thesis
    using disp render_NavHeader_Narrow [of f s] NavBar_node_handlers [of rs s]
      NavBar_Narrow_handlers_at [of rs s p] step_Narrow_Click [of rs s p]
      run_Narrow_Clicks [of rs s ps]
    by (simp only: simp_thms)
qed


end
